theory Spec2Isabelle
  imports Main "HOL-Library.AList"
begin

section \<open>Values, documents and the document store\<close>

text \<open>
  The server keeps its data in two MongoDB collections, \<open>parcels\<close> and \<open>users\<close>, and
  every handler works on JSON request bodies. A value is a JSON value or one of the two
  BSON values the server creates itself (\<open>new Date()\<close>, \<open>new ObjectId()\<close>). A document
  (and a request body, and a \<open>$set\<close> argument) is an object: the list of its fields in
  order. A missing field, JavaScript's \<open>undefined\<close>, is \<open>None\<close>. Numbers are taken as
  integers: no handler computes with them.
\<close>

datatype json =
    JNull
  | JBool bool
  | JNum int
  | JStr string
  | JDate nat
  | JObjectId nat
  | JArr "json list"
  | JObj "(string \<times> json) list"

type_synonym doc = "(string \<times> json) list"

text \<open>JavaScript truthiness of a value that is not \<open>undefined\<close>, as \<open>if (agentEmail)\<close> tests it.\<close>

fun truthy :: "json \<Rightarrow> bool" where
  "truthy JNull = False"
| "truthy (JBool b) = b"
| "truthy (JNum n) = (n \<noteq> 0)"
| "truthy (JStr s) = (s \<noteq> [])"
| "truthy _ = True"

text \<open>
  Optional property access \<open>v?.k\<close>: the field of an object, \<open>undefined\<close> on \<open>undefined\<close>,
  \<open>null\<close> and on every value that has no such property.
\<close>

fun js_prop :: "json option \<Rightarrow> string \<Rightarrow> json option" where
  "js_prop (Some (JObj d)) k = map_of d k"
| "js_prop _ k = None"

text \<open>
  The store's equality condition \<open>{field: q}\<close> on the value of a field: the value is
  \<open>q\<close>, or it is an array with \<open>q\<close> among its elements; \<open>null\<close> also matches a missing field.
  The query value \<open>q\<close> is compared as a value (it is not read as an operator document).
\<close>

fun eq_match :: "json option \<Rightarrow> json \<Rightarrow> bool" where
  "eq_match None q = (q = JNull)"
| "eq_match (Some (JArr xs)) q = (JArr xs = q \<or> q \<in> set xs)"
| "eq_match (Some v) q = (v = q)"




text \<open>
  The update \<open>{$set: upd}\<close> on one document: each field of \<open>upd\<close> replaces the
  field of that name where it stands or is added at the end. Field names are taken as
  they are (top-level names). An object has one value for a name, the one \<open>map_of\<close>
  finds; the fields are applied from the last to the first so that this value is the
  one that is set.

  This is the store's reading of plain names only. A name with a dot is a path into an
  embedded document to the store, which follows it or refuses the whole update, and a
  name that is empty or begins with \<open>$\<close> is refused or read as an operator. \<open>plain_fields\<close>
  says that an update has no such name, and \<open>touches_field f\<close> that a name is \<open>f\<close> or a
  path that begins at \<open>f\<close>.
\<close>

definition set_fields :: "doc \<Rightarrow> doc \<Rightarrow> doc" where
  "set_fields upd d = foldr (\<lambda>(k, v). AList.update k v) upd d"



definition touches_field :: "string \<Rightarrow> string \<Rightarrow> bool" where
  "touches_field f k = (k = f \<or> take (Suc (length f)) k = f @ ''.'')"

datatype 'a outcome = Throws | Returns 'a

record update_result =
  matchedCount :: nat
  modifiedCount :: nat

text \<open>
  \<open>collection.updateOne(filter, {$set: upd})\<close> on the documents of a collection: the
  first document that satisfies the filter is updated. The store refuses an update
  that would change \<open>_id\<close> (the call throws); \<open>modifiedCount\<close> is 1 only when the document
  changed, so an update that sets nothing new, or nothing at all, modifies nothing.
\<close>

fun updateOne :: "(doc \<Rightarrow> bool) \<Rightarrow> doc \<Rightarrow> doc list \<Rightarrow> (update_result \<times> doc list) outcome" where
  "updateOne f upd [] = Returns (\<lparr>matchedCount = 0, modifiedCount = 0\<rparr>, [])"
| "updateOne f upd (d # ds) =
     (if f d then
        (if map_of (set_fields upd d) ''_id'' \<noteq> map_of d ''_id'' then Throws
         else Returns (\<lparr>matchedCount = 1,
                         modifiedCount = (if set_fields upd d = d then 0 else 1)\<rparr>,
                       set_fields upd d # ds))
      else (case updateOne f upd ds of
              Throws \<Rightarrow> Throws
            | Returns (r, ds') \<Rightarrow> Returns (r, d # ds')))"

text \<open>\<open>collection.findOne(filter)\<close>: the first document that satisfies the filter, or \<open>null\<close>.\<close>

definition findOne :: "(doc \<Rightarrow> bool) \<Rightarrow> doc list \<Rightarrow> doc option" where
  "findOne f ds = find f ds"

text \<open>
  The filters the handlers use. The query value is compared as a value; a query value
  that is an object with names beginning with \<open>$\<close> is an operator to the store and is
  outside this reading.
\<close>

definition has_id :: "nat \<Rightarrow> doc \<Rightarrow> bool" where
  "has_id oid d = eq_match (map_of d ''_id'') (JObjectId oid)"

definition has_email :: "json \<Rightarrow> doc \<Rightarrow> bool" where
  "has_email e d = eq_match (map_of d ''email'') e"

section \<open>The server's state, its environment and its effects\<close>

datatype mail = Mail (rcpt: "json option") (subject: string)

datatype event =
    Emit string
  | SendMail mail
  | ConsoleLog string
  | ConsoleError string

record state =
  parcels :: "doc list"
  users :: "doc list"
  trace :: "event list"

record hit =
  lat :: string
  lon :: string

text \<open>
  What a request handler gets from outside the program during one request: the
  identifier \<open>new ObjectId(id)\<close> parses (\<open>None\<close> when the constructor throws), the clock,
  the fresh identifier of \<open>new ObjectId()\<close>, JavaScript's string conversion and
  \<open>parseFloat\<close>, the geocoding service's answer to a search (\<open>Throws\<close> when the request
  or its decoding fails), whether each store call succeeds (a call that does not
  throws) and whether \<open>sendMail\<close> accepts a message.
\<close>

record env =
  objectIdOf :: "string \<Rightarrow> nat option"
  now :: nat
  newObjectId :: nat
  toString :: "json option \<Rightarrow> string"
  parseFloat :: "string \<Rightarrow> json"
  nominatim :: "string \<Rightarrow> hit list outcome"
  insertParcel_ok :: bool
  updateParcel_ok :: bool
  findParcel_ok :: bool
  findUser_ok :: bool
  insertUser_ok :: bool
  updateUser_ok :: bool
  sendMail_ok :: "mail \<Rightarrow> bool"

datatype payload =
    UpdateResult update_result
  | Message string
  | Booked json
  | NotBooked string
  | Inserted json

datatype response = Response (status_code: nat) (payload: payload)

definition emit :: "string \<Rightarrow> state \<Rightarrow> state" where
  "emit s st = st\<lparr>trace := trace st @ [Emit s]\<rparr>"

definition console_log :: "string \<Rightarrow> state \<Rightarrow> state" where
  "console_log s st = st\<lparr>trace := trace st @ [ConsoleLog s]\<rparr>"

definition console_error :: "string \<Rightarrow> state \<Rightarrow> state" where
  "console_error s st = st\<lparr>trace := trace st @ [ConsoleError s]\<rparr>"

text \<open>
  \<open>transporter.sendMail(mailOptions)\<close>: the message is handed to the transport; the
  call throws when the transport rejects it. \<open>Inl\<close> is the state in which a step threw.
\<close>

definition sendMail :: "env \<Rightarrow> mail \<Rightarrow> state \<Rightarrow> state + state" where
  "sendMail env m st =
     (let st' = st\<lparr>trace := trace st @ [SendMail m]\<rparr>
      in if sendMail_ok env m then Inr st' else Inl st')"

section \<open>Booking a parcel\<close>

text \<open>
  \<open>getCoordinates(address)\<close>: the first place of the geocoding service's answer,
  \<open>null\<close> when the answer has no place; it throws when the request fails.
\<close>

definition getCoordinates :: "env \<Rightarrow> string \<Rightarrow> json option outcome" where
  "getCoordinates env address =
     (case nominatim env address of
        Throws \<Rightarrow> Throws
      | Returns [] \<Rightarrow> Returns None
      | Returns (h # _) \<Rightarrow>
          Returns (Some (JObj [(''lat'', parseFloat env (lat h)),
                               (''lng'', parseFloat env (lon h))])))"

text \<open>\<open>v + s\<close> for a string \<open>s\<close>: concatenation, after string conversion of \<open>v\<close>.\<close>

definition js_plus :: "env \<Rightarrow> json option \<Rightarrow> string \<Rightarrow> string" where
  "js_plus env v s = (case v of Some (JStr a) \<Rightarrow> a @ s | _ \<Rightarrow> toString env v @ s)"

text \<open>
  The record of a booking:
  \<open>{...req.body, status: "Pending", createdAt: new Date(), _id: new ObjectId(),
    pickup: pickupCoords, delivery: deliveryCoords}\<close>.
\<close>

definition new_parcel :: "env \<Rightarrow> doc \<Rightarrow> json \<Rightarrow> json \<Rightarrow> doc" where
  "new_parcel env body pickupCoords deliveryCoords =
     AList.update ''delivery'' deliveryCoords
       (AList.update ''pickup'' pickupCoords
         (AList.update ''_id'' (JObjectId (newObjectId env))
           (AList.update ''createdAt'' (JDate (now env))
             (AList.update ''status'' (JStr ''Pending'') body))))"

text \<open>The \<open>try\<close> block of \<open>POST /parcels\<close>.\<close>

definition tryBook :: "env \<Rightarrow> doc \<Rightarrow> state \<Rightarrow> state + response \<times> state" where
  "tryBook env body st =
     (case getCoordinates env (js_plus env (map_of body ''pickupAddress'') '', Dhaka'') of
        Throws \<Rightarrow> Inl st
      | Returns pickupCoords \<Rightarrow>
          (case getCoordinates env (js_plus env (map_of body ''deliveryAddress'') '', Dhaka'') of
             Throws \<Rightarrow> Inl st
           | Returns deliveryCoords \<Rightarrow>
               (case pickupCoords of
                  None \<Rightarrow> Inr (Response 400 (NotBooked ''Invalid addresses''), st)
                | Some pc \<Rightarrow>
                    (case deliveryCoords of
                       None \<Rightarrow> Inr (Response 400 (NotBooked ''Invalid addresses''), st)
                     | Some dc \<Rightarrow>
                         if insertParcel_ok env then
                           (let parcel = new_parcel env body pc dc
                            in case sendMail env
                                      (Mail (map_of parcel ''email'') ''Parcel Booking Confirmation'')
                                      (st\<lparr>parcels := parcels st @ [parcel]\<rparr>) of
                                 Inl st' \<Rightarrow> Inl st'
                               | Inr st' \<Rightarrow>
                                   Inr (Response 200 (Booked (JObjectId (newObjectId env))), st'))
                         else Inl st))))"

text \<open>\<open>POST /parcels\<close> behind its access checks, with the \<open>catch\<close> that answers 500.\<close>

definition bookParcel :: "env \<Rightarrow> doc \<Rightarrow> state \<Rightarrow> response \<times> state" where
  "bookParcel env body st =
     (case tryBook env body st of
        Inl st' \<Rightarrow>
          (Response 500 (NotBooked ''Booking failed''), console_error ''Error booking parcel:'' st')
      | Inr (res, st') \<Rightarrow> (res, st'))"

section \<open>Registering and editing a user\<close>

text \<open>
  \<open>POST /users\<close>: \<open>findOne({email: user.email})\<close>, 409 when a user has that email,
  \<open>insertOne(user)\<close> otherwise. An \<open>undefined\<close> query value is sent as \<open>null\<close>; the
  inserted document gets a fresh \<open>_id\<close> when it has none. The handler has no \<open>try\<close>: when
  a store call throws, no response is sent.
\<close>

definition postUser :: "env \<Rightarrow> doc \<Rightarrow> state \<Rightarrow> response option \<times> state" where
  "postUser env user st =
     (if findUser_ok env then
        (case findOne (has_email (case map_of user ''email'' of None \<Rightarrow> JNull | Some e \<Rightarrow> e))
                (users st) of
           Some existingUser \<Rightarrow> (Some (Response 409 (Message ''User already exists'')), st)
         | None \<Rightarrow>
             if insertUser_ok env then
               (case map_of user ''_id'' of
                  None \<Rightarrow>
                    (Some (Response 200 (Inserted (JObjectId (newObjectId env)))),
                     st\<lparr>users := users st @ [user @ [(''_id'', JObjectId (newObjectId env))]]\<rparr>)
                | Some i \<Rightarrow>
                    (Some (Response 200 (Inserted i)), st\<lparr>users := users st @ [user]\<rparr>))
             else (None, st))
      else (None, st))"

text \<open>
  \<open>PATCH /users/role/:email\<close> behind its access checks:
  \<open>usersCollection.updateOne({email}, {$set: updateData})\<close>. The handler has no \<open>try\<close>:
  when the store call throws, no response is sent.
\<close>

definition patchUserRole :: "env \<Rightarrow> string \<Rightarrow> doc \<Rightarrow> state \<Rightarrow> response option \<times> state" where
  "patchUserRole env email updateData st =
     (if updateUser_ok env then
        (case updateOne (has_email (JStr email)) updateData (users st) of
           Throws \<Rightarrow> (None, st)
         | Returns (result, us) \<Rightarrow>
             (Some (Response 200 (UpdateResult result)), st\<lparr>users := us\<rparr>))
      else (None, st))"

section \<open>Listing parcels\<close>

text \<open>
  \<open>GET /parcels\<close>: \<open>const query = email ? { email } : {}\<close>. The query parameter is a
  string or absent; the empty string is falsy.
\<close>

definition getParcels :: "string option \<Rightarrow> state \<Rightarrow> doc list" where
  "getParcels email st =
     (case email of
        None \<Rightarrow> parcels st
      | Some e \<Rightarrow> if e = [] then parcels st else filter (has_email (JStr e)) (parcels st))"



section \<open>Updating a parcel\<close>

text \<open>
  The availability release of \<open>PATCH /parcels/:id\<close>:
  \<open>usersCollection.updateOne({email: agentEmail}, {$set: {availability: "available"}})\<close>.
\<close>

definition setAvailable :: "json \<Rightarrow> doc list \<Rightarrow> (update_result \<times> doc list) outcome" where
  "setAvailable agentEmail us =
     updateOne (has_email agentEmail) [(''availability'', JStr ''available'')] us"

definition releaseAgent :: "env \<Rightarrow> doc option \<Rightarrow> state \<Rightarrow> state + state" where
  "releaseAgent env parcel st =
     (case js_prop (js_prop (map_option JObj parcel) ''deliveryAgent'') ''email'' of
        None \<Rightarrow> Inr st
      | Some agentEmail \<Rightarrow>
          if truthy agentEmail then
            (if updateUser_ok env then
               (case setAvailable agentEmail (users st) of
                  Throws \<Rightarrow> Inl st
                | Returns (r, us) \<Rightarrow> Inr (st\<lparr>users := us\<rparr>))
             else Inl st)
          else Inr st)"

text \<open>
  The status mail: \<open>to: parcel.email\<close> throws a TypeError when \<open>findOne\<close> gave \<open>null\<close>;
  after the mail is sent the handler logs it.
\<close>

definition sendStatusMail :: "env \<Rightarrow> doc option \<Rightarrow> string \<Rightarrow> state \<Rightarrow> state + state" where
  "sendStatusMail env parcel status st =
     (case parcel of
        None \<Rightarrow> Inl st
      | Some p \<Rightarrow>
          (case sendMail env (Mail (map_of p ''email'') (''Parcel Status Update: '' @ status)) st of
             Inl st' \<Rightarrow> Inl st'
           | Inr st' \<Rightarrow> Inr (console_log ''Status email sent to'' st')))"

text \<open>The follow-up actions taken when the new status is \<open>Delivered\<close> or \<open>Failed\<close>.\<close>

definition followUp :: "env \<Rightarrow> nat \<Rightarrow> string \<Rightarrow> state \<Rightarrow> state + state" where
  "followUp env oid status st =
     (if findParcel_ok env then
        (let parcel = findOne (has_id oid) (parcels st)
         in case releaseAgent env parcel st of
              Inl st' \<Rightarrow> Inl st'
            | Inr st' \<Rightarrow> sendStatusMail env parcel status st')
      else Inl st)"

text \<open>The body of the handler's \<open>try\<close> block, up to \<open>res.send(result)\<close>.\<close>

definition tryPatch :: "env \<Rightarrow> string \<Rightarrow> doc \<Rightarrow> state \<Rightarrow> state + update_result \<times> state" where
  "tryPatch env pid updateData st =
     (case objectIdOf env pid of
        None \<Rightarrow> Inl st
      | Some oid \<Rightarrow>
          if updateParcel_ok env then
            (case updateOne (has_id oid) updateData (parcels st) of
               Throws \<Rightarrow> Inl st
             | Returns (result, ps) \<Rightarrow>
                 if modifiedCount result > 0 then
                   (let st1 = emit ''status-updated'' (st\<lparr>parcels := ps\<rparr>)
                    in if map_of updateData ''status'' = Some (JStr ''Delivered'') then
                         (case followUp env oid ''Delivered'' st1 of
                            Inl st' \<Rightarrow> Inl st'
                          | Inr st' \<Rightarrow> Inr (result, st'))
                       else if map_of updateData ''status'' = Some (JStr ''Failed'') then
                         (case followUp env oid ''Failed'' st1 of
                            Inl st' \<Rightarrow> Inl st'
                          | Inr st' \<Rightarrow> Inr (result, st'))
                       else Inr (result, st1))
                 else Inr (result, st\<lparr>parcels := ps\<rparr>))
          else Inl st)"

text \<open>
  \<open>PATCH /parcels/:id\<close> behind its two access checks: the \<open>try\<close> block, and the
  \<open>catch\<close> that logs the error and answers 500.
\<close>

definition patchParcel :: "env \<Rightarrow> string \<Rightarrow> doc \<Rightarrow> state \<Rightarrow> response \<times> state" where
  "patchParcel env pid updateData st =
     (case tryPatch env pid updateData st of
        Inl st' \<Rightarrow>
          (Response 500 (Message ''Internal server error''),
           console_error ''Error in PATCH /parcels/:id:'' st')
      | Inr (result, st') \<Rightarrow> (Response 200 (UpdateResult result), st'))"

section \<open>Requests and runs\<close>

text \<open>
  The role checks in front of the handlers (\<open>verifyCustomer\<close>, \<open>verifyDeliveryAgent\<close>,
  \<open>verifyAdmin\<close>): the caller, the email of the verified token, is looked up in \<open>users\<close>,
  and the request is answered 403 unless that user exists and has the role.
\<close>

definition has_role :: "string \<Rightarrow> string \<Rightarrow> state \<Rightarrow> bool" where
  "has_role role caller st =
     (case findOne (has_email (JStr caller)) (users st) of
        None \<Rightarrow> False
      | Some user \<Rightarrow> map_of user ''role'' = Some (JStr role))"

text \<open>
  The requests that change the store, each but the registration with its caller, and
  the state after a request and after a sequence of requests, each with the
  environment it meets. A request that fails its role check changes nothing.
\<close>

datatype request =
    PostUser doc
  | PatchUserRole string string doc
  | PostParcel string doc
  | PatchParcel string string doc

fun handle :: "env \<Rightarrow> request \<Rightarrow> state \<Rightarrow> state" where
  "handle env (PostUser user) st = snd (postUser env user st)"
| "handle env (PatchUserRole caller email updateData) st =
     (if has_role ''admin'' caller st then snd (patchUserRole env email updateData st) else st)"
| "handle env (PostParcel caller body) st =
     (if has_role ''customer'' caller st then snd (bookParcel env body st) else st)"
| "handle env (PatchParcel caller pid updateData) st =
     (if has_role ''deliveryAgent'' caller st then snd (patchParcel env pid updateData st) else st)"

fun run :: "(env \<times> request) list \<Rightarrow> state \<Rightarrow> state" where
  "run [] st = st"
| "run ((env, r) # rs) st = run rs (handle env r st)"

definition st_init :: state where
  "st_init = \<lparr>parcels = [], users = [], trace = []\<rparr>"

section \<open>Notions of the specification\<close>

text \<open>
  The transition table as the specification words it: the statuses a status may be
  followed by.
\<close>

definition spec_successors :: "string \<Rightarrow> string list" where
  "spec_successors s =
     (if s = ''Pending'' then [''Assigned'', ''Cancelled'']
      else if s = ''Assigned'' then [''InTransit'', ''Delivered'', ''Failed'']
      else if s = ''InTransit'' then [''Delivered'', ''Failed'']
      else [])"




section \<open>Example requests\<close>

text \<open>
  An environment in which every outside call succeeds and the geocoding service knows
  two places (the example bodies carry their addresses as strings, so its string
  conversion is never asked for), the same environment with another fresh identifier,
  and its variants in which the user store or the mail transport is down.
\<close>

definition pid1 :: string where
  "pid1 = ''000000000000000000000001''"

definition pid2 :: string where
  "pid2 = ''000000000000000000000002''"

definition env_ok :: env where
  "env_ok =
     \<lparr>objectIdOf = (\<lambda>s. if s = pid1 then Some 1 else if s = pid2 then Some 2 else None),
      now = 100, newObjectId = 7, toString = (\<lambda>v. ''undefined''),
      parseFloat =
        (\<lambda>s. if s = ''24'' then JNum 24 else if s = ''90'' then JNum 90
             else if s = ''23'' then JNum 23 else if s = ''91'' then JNum 91 else JNum 0),
      nominatim =
        (\<lambda>s. if s = ''Gulshan, Dhaka'' then Returns [\<lparr>lat = ''24'', lon = ''90''\<rparr>]
             else if s = ''Mirpur, Dhaka'' then Returns [\<lparr>lat = ''23'', lon = ''91''\<rparr>]
             else Returns []),
      insertParcel_ok = True, updateParcel_ok = True, findParcel_ok = True,
      findUser_ok = True, insertUser_ok = True, updateUser_ok = True,
      sendMail_ok = (\<lambda>m. True)\<rparr>"

definition env_fresh :: "nat \<Rightarrow> env" where
  "env_fresh n = env_ok\<lparr>newObjectId := n\<rparr>"

definition env_release_down :: env where
  "env_release_down = env_ok\<lparr>updateUser_ok := False\<rparr>"

definition env_mail_down :: env where
  "env_mail_down = env_ok\<lparr>sendMail_ok := (\<lambda>m. False)\<rparr>"

definition env_geo_down :: env where
  "env_geo_down =
     env_ok\<lparr>nominatim := (\<lambda>s. if s = ''Atlantis, Dhaka'' then Returns [] else Throws)\<rparr>"

text \<open>
  The requests of the examples: the later agent, an administrator and a customer
  register, the customer books, the administrator marks the agent as a busy delivery
  agent, a parcel is assigned to the agent.
\<close>

definition registration :: doc where
  "registration = [(''email'', JStr ''a@x''), (''role'', JStr ''customer'')]"

definition admin_registration :: doc where
  "admin_registration = [(''email'', JStr ''r@x''), (''role'', JStr ''admin'')]"

definition customer_registration :: doc where
  "customer_registration = [(''email'', JStr ''c@x''), (''role'', JStr ''customer'')]"

definition booking :: doc where
  "booking =
     [(''name'', JStr ''C''), (''email'', JStr ''c@x''), (''pickupAddress'', JStr ''Gulshan''),
      (''deliveryAddress'', JStr ''Mirpur'')]"

definition assignment :: doc where
  "assignment =
     [(''status'', JStr ''Assigned''), (''deliveryAgent'', JObj [(''email'', JStr ''a@x'')])]"

definition marked_busy :: doc where
  "marked_busy = [(''role'', JStr ''deliveryAgent''), (''availability'', JStr ''busy'')]"

text \<open>
  The states of the examples, each reached from the empty store by requests that pass
  their role checks: the later agent has registered; two parcels are booked and
  assigned to the agent, who is marked busy; the first of the two is delivered; the
  second refers to its agent by a string.
\<close>

definition st_empty :: state where
  "st_empty = run [(env_fresh 3, PostUser registration)] st_init"

definition st_assigned :: state where
  "st_assigned =
     run [(env_fresh 4, PostUser admin_registration),
          (env_fresh 5, PostUser customer_registration),
          (env_fresh 1, PostParcel ''c@x'' booking), (env_fresh 2, PostParcel ''c@x'' booking),
          (env_ok, PatchUserRole ''r@x'' ''a@x'' marked_busy),
          (env_ok, PatchParcel ''a@x'' pid1 assignment),
          (env_ok, PatchParcel ''a@x'' pid2 assignment)] st_empty"

definition st_delivered :: state where
  "st_delivered =
     run [(env_ok, PatchParcel ''a@x'' pid1 [(''status'', JStr ''Delivered'')])] st_assigned"


text \<open>The documents these states hold.\<close>

definition agent_new :: doc where
  "agent_new = [(''email'', JStr ''a@x''), (''role'', JStr ''customer''), (''_id'', JObjectId 3)]"

definition agent_a :: "string \<Rightarrow> doc" where
  "agent_a availability =
     [(''email'', JStr ''a@x''), (''role'', JStr ''deliveryAgent''), (''_id'', JObjectId 3),
      (''availability'', JStr availability)]"

definition admin_r :: doc where
  "admin_r = [(''email'', JStr ''r@x''), (''role'', JStr ''admin''), (''_id'', JObjectId 4)]"

definition customer_c :: doc where
  "customer_c = [(''email'', JStr ''c@x''), (''role'', JStr ''customer''), (''_id'', JObjectId 5)]"

definition parcel_of :: "nat \<Rightarrow> string \<Rightarrow> doc" where
  "parcel_of n s =
     [(''name'', JStr ''C''), (''email'', JStr ''c@x''), (''pickupAddress'', JStr ''Gulshan''),
      (''deliveryAddress'', JStr ''Mirpur''), (''status'', JStr s), (''createdAt'', JDate 100),
      (''_id'', JObjectId n),
      (''pickup'', JObj [(''lat'', JNum 24), (''lng'', JNum 90)]),
      (''delivery'', JObj [(''lat'', JNum 23), (''lng'', JNum 91)]),
      (''deliveryAgent'', JObj [(''email'', JStr ''a@x'')])]"

definition booked_mail :: event where
  "booked_mail = SendMail (Mail (Some (JStr ''c@x'')) ''Parcel Booking Confirmation'')"

section \<open>The store: basic facts\<close>

text \<open>
  The documents of a collection after \<open>updateOne\<close>: the first document that satisfies
  the filter is replaced, every other document stays.
\<close>

fun replace_first :: "('a \<Rightarrow> bool) \<Rightarrow> ('a \<Rightarrow> 'a) \<Rightarrow> 'a list \<Rightarrow> 'a list" where
  "replace_first f g [] = []"
| "replace_first f g (d # ds) = (if f d then g d # ds else d # replace_first f g ds)"

lemmas example_defs = env_ok_def env_fresh_def env_release_down_def env_mail_down_def
  env_geo_down_def parcel_of_def agent_new_def agent_a_def admin_r_def customer_c_def booking_def
  registration_def admin_registration_def customer_registration_def assignment_def
  marked_busy_def booked_mail_def pid1_def pid2_def st_init_def

lemmas handler_defs = patchParcel_def tryPatch_def followUp_def releaseAgent_def
  sendStatusMail_def sendMail_def setAvailable_def findOne_def has_id_def has_email_def
  set_fields_def emit_def console_log_def console_error_def

lemma map_of_set_fields: "map_of (set_fields upd d) = map_of d ++ map_of upd"
  unfolding set_fields_def
  by (induction upd) (auto simp: update_conv' fun_eq_iff map_add_def)

lemma set_fields_field:
  "map_of (set_fields upd d) k = (case map_of upd k of None \<Rightarrow> map_of d k | Some v \<Rightarrow> Some v)"
  by (simp add: map_of_set_fields map_add_def)

lemma updateOne_not_found:
  "find f ds = None \<Longrightarrow>
   updateOne f upd ds = Returns (\<lparr>matchedCount = 0, modifiedCount = 0\<rparr>, ds)"
  by (induction ds) (auto split: if_splits)

lemma updateOne_found:
  "find f ds = Some d \<Longrightarrow>
   updateOne f upd ds =
     (if map_of (set_fields upd d) ''_id'' \<noteq> map_of d ''_id'' then Throws
      else Returns (\<lparr>matchedCount = 1, modifiedCount = (if set_fields upd d = d then 0 else 1)\<rparr>,
                    replace_first f (set_fields upd) ds))"
  by (induction ds) (auto split: if_splits)

lemma find_replace_first:
  "find f ds = Some d \<Longrightarrow> f (g d) \<Longrightarrow> find f (replace_first f g ds) = Some (g d)"
  by (induction ds) (auto split: if_splits)

lemma replace_first_not_found: "find f ds = None \<Longrightarrow> replace_first f g ds = ds"
  by (induction ds) (auto split: if_splits)



lemma map_replace_first:
  "(\<And>d. h (g d) = h d) \<Longrightarrow> map h (replace_first f g ds) = map h ds"
  by (induction ds) auto

lemma has_id_set_fields:
  "map_of (set_fields upd d) ''_id'' = map_of d ''_id'' \<Longrightarrow>
   has_id oid (set_fields upd d) = has_id oid d"
  by (simp add: has_id_def)

lemma replace_first_idem:
  "(\<And>d. f d \<Longrightarrow> f (g d) \<and> g (g d) = g d) \<Longrightarrow>
   replace_first f g (replace_first f g ds) = replace_first f g ds"
  by (induction ds) auto

lemma replace_first_fixed:
  "find f ds = Some d \<Longrightarrow> g d = d \<Longrightarrow> replace_first f g ds = ds"
  by (induction ds) (auto split: if_splits)

lemma set_available_doc:
  "set_fields [(''availability'', JStr ''available'')] = AList.update ''availability'' (JStr ''available'')"
  by (rule ext) (simp add: set_fields_def)

lemma setAvailable_eq:
  "setAvailable e us =
     Returns (\<lparr>matchedCount = (case find (has_email e) us of None \<Rightarrow> 0 | Some d \<Rightarrow> 1),
               modifiedCount = (case find (has_email e) us of None \<Rightarrow> 0
                  | Some d \<Rightarrow> if AList.update ''availability'' (JStr ''available'') d = d then 0 else 1)\<rparr>,
              replace_first (has_email e) (AList.update ''availability'' (JStr ''available'')) us)"
proof (cases "find (has_email e) us")
  case None
  then show ?thesis
    by (simp add: setAvailable_def updateOne_not_found replace_first_not_found)
next
  case (Some d)
  then show ?thesis
    by (simp add: setAvailable_def updateOne_found set_available_doc update_conv')
qed

section \<open>The status update: basic facts\<close>

lemma followUp_parcels:
  "followUp env oid s st = Inl st' \<Longrightarrow> parcels st' = parcels st"
  "followUp env oid s st = Inr st' \<Longrightarrow> parcels st' = parcels st"
  by (auto simp: followUp_def releaseAgent_def sendStatusMail_def sendMail_def console_log_def Let_def
           split: if_splits option.splits sum.splits outcome.splits prod.splits)

lemma patchParcel_parcels:
  "parcels (snd (patchParcel env pid upd st)) =
     (case objectIdOf env pid of
        None \<Rightarrow> parcels st
      | Some oid \<Rightarrow>
          if updateParcel_ok env then
            (case updateOne (has_id oid) upd (parcels st) of
               Throws \<Rightarrow> parcels st
             | Returns (r, ps) \<Rightarrow> ps)
          else parcels st)"
  by (auto simp: patchParcel_def tryPatch_def console_error_def emit_def Let_def
           dest!: followUp_parcels
           split: option.splits sum.splits outcome.splits prod.splits)

lemma patchParcel_parcels_found:
  assumes "objectIdOf env pid = Some oid" "updateParcel_ok env"
    and "findOne (has_id oid) (parcels st) = Some p"
    and "map_of (set_fields upd p) ''_id'' = map_of p ''_id''"
  shows "parcels (snd (patchParcel env pid upd st)) = replace_first (has_id oid) (set_fields upd) (parcels st)"
  using assms by (simp add: patchParcel_parcels findOne_def updateOne_found)

lemma findOne_after_update:
  assumes "findOne (has_id oid) ps = Some p"
    and "map_of (set_fields upd p) ''_id'' = map_of p ''_id''"
  shows "findOne (has_id oid) (replace_first (has_id oid) (set_fields upd) ps) = Some (set_fields upd p)"
proof -
  from assms(1) have "has_id oid p" by (auto simp: findOne_def find_Some_iff)
  with assms(2) have "has_id oid (set_fields upd p)" by (simp add: has_id_set_fields)
  with assms(1) show ?thesis by (simp add: findOne_def find_replace_first)
qed




lemma patchParcel_response:
  "fst (patchParcel env pid upd st) = Response 500 (Message ''Internal server error'') \<or>
   (\<exists>r. fst (patchParcel env pid upd st) = Response 200 (UpdateResult r))"
  by (auto simp: patchParcel_def split: sum.splits)


lemma updateOne_Returns:
  "updateOne f upd ds = Returns (r, ds') \<Longrightarrow> ds' = replace_first f (set_fields upd) ds"
  by (induction ds arbitrary: ds') (auto split: if_splits outcome.splits)



lemma patchUserRole_parcels: "parcels (snd (patchUserRole env email upd st)) = parcels st"
  by (auto simp: patchUserRole_def split: outcome.splits)

section \<open>Booking and listing: basic facts\<close>

lemma getCoordinates_not_null: "getCoordinates env a = Returns (Some c) \<Longrightarrow> c \<noteq> JNull"
  by (auto simp: getCoordinates_def split: outcome.splits list.splits)

lemma new_parcel_fields:
  "map_of (new_parcel env body pc dc) k =
     (if k = ''delivery'' then Some dc
      else if k = ''pickup'' then Some pc
      else if k = ''_id'' then Some (JObjectId (newObjectId env))
      else if k = ''createdAt'' then Some (JDate (now env))
      else if k = ''status'' then Some (JStr ''Pending'')
      else map_of body k)"
  by (simp add: new_parcel_def update_conv')


lemma bookParcel_parcels: "\<exists>new. parcels (snd (bookParcel env body st)) = parcels st @ new"
  by (auto simp: bookParcel_def tryBook_def sendMail_def console_error_def Let_def
           split: option.splits sum.splits outcome.splits prod.splits if_splits)



section \<open>The release, record by record\<close>










lemma touches_field_none:
  "\<not> list_ex (touches_field f) (map fst upd) \<Longrightarrow> map_of upd f = None"
  by (induction upd) (auto simp: touches_field_def)

section \<open>The example states\<close>

lemma st_empty_eq: "st_empty = \<lparr>parcels = [], users = [agent_new], trace = []\<rparr>"
  by (simp add: st_empty_def postUser_def findOne_def has_email_def example_defs)

lemma st_assigned_eq:
  "st_assigned =
     \<lparr>parcels = [parcel_of 1 ''Assigned'', parcel_of 2 ''Assigned''],
      users = [agent_a ''busy'', admin_r, customer_c],
      trace = [booked_mail, booked_mail, Emit ''status-updated'', Emit ''status-updated'']\<rparr>"
  by (simp add: st_assigned_def st_empty_eq has_role_def postUser_def bookParcel_def tryBook_def
        getCoordinates_def js_plus_def new_parcel_def patchUserRole_def handler_defs example_defs)

lemma st_delivered_eq:
  "st_delivered =
     \<lparr>parcels = [parcel_of 1 ''Delivered'', parcel_of 2 ''Assigned''],
      users = [agent_a ''available'', admin_r, customer_c],
      trace = [booked_mail, booked_mail, Emit ''status-updated'', Emit ''status-updated'',
               Emit ''status-updated'',
               SendMail (Mail (Some (JStr ''c@x'')) ''Parcel Status Update: Delivered''),
               ConsoleLog ''Status email sent to'']\<rparr>"
  by (simp add: st_delivered_def st_assigned_eq has_role_def handler_defs example_defs)


section \<open>The claims\<close>

text \<open>
  C1. The handler of \<open>PATCH /parcels/:id\<close> has no transition table. The claim fails: a
  parcel that is \<open>Delivered\<close> is set back to \<open>Pending\<close>, a status the table does not
  allow after \<open>Delivered\<close>, and the request is answered as a success.
\<close>

theorem terminal_reopened_counterexample:
  "findOne (has_id 1) (parcels st_delivered) = Some (parcel_of 1 ''Delivered'') \<and>
   ''Pending'' \<notin> set (spec_successors ''Delivered'') \<and>
   patchParcel env_ok pid1 [(''status'', JStr ''Pending'')] st_delivered =
     (Response 200 (UpdateResult \<lparr>matchedCount = 1, modifiedCount = 1\<rparr>),
      st_delivered\<lparr>parcels := [parcel_of 1 ''Pending'', parcel_of 2 ''Assigned''],
                   trace := trace st_delivered @ [Emit ''status-updated'']\<rparr>)"
  by (simp add: spec_successors_def handler_defs st_delivered_eq example_defs)

text \<open>
  C1, as the code has it: whenever the identifier names a stored parcel and the store
  accepts the write, the request body is applied field by field whatever the parcel's
  current status is, so the stored status becomes the requested one; the answer is the
  store's update result or the 500 of the handler's \<open>catch\<close>, never a rejected transition.
\<close>

theorem patch_sets_any_status:
  assumes "objectIdOf env pid = Some oid"
    and "findOne (has_id oid) (parcels st) = Some p"
    and "updateParcel_ok env"
    and "map_of (set_fields updateData p) ''_id'' = map_of p ''_id''"
    and "map_of updateData ''status'' = Some v"
  shows "findOne (has_id oid) (parcels (snd (patchParcel env pid updateData st))) =
           Some (set_fields updateData p) \<and>
         map_of (set_fields updateData p) ''status'' = Some v \<and>
         (fst (patchParcel env pid updateData st) = Response 500 (Message ''Internal server error'') \<or>
          (\<exists>r. fst (patchParcel env pid updateData st) = Response 200 (UpdateResult r)))"
  using assms
  by (simp add: patchParcel_parcels_found findOne_after_update set_fields_field patchParcel_response)

theorem patch_sets_any_status_witness:
  "findOne (has_id 1) (parcels (snd (patchParcel env_ok pid1 [(''status'', JStr ''Assigned'')] st_delivered))) =
     Some (parcel_of 1 ''Assigned'')"
  using patch_sets_any_status [of env_ok pid1 1 st_delivered "parcel_of 1 ''Delivered''"
      "[(''status'', JStr ''Assigned'')]" "JStr ''Assigned''"]
  by (simp add: st_delivered_eq example_defs findOne_def has_id_def set_fields_def)










text \<open>
  C5. The two lookups run before the test, with no handling of their own. The claim
  fails: when the pickup address resolves to no place and the lookup of the delivery
  address throws, the booking is answered with 500 \<open>Booking failed\<close>, not with 400.
\<close>

theorem lookup_throws_counterexample:
  "getCoordinates env_geo_down ''Atlantis, Dhaka'' = Returns None \<and>
   getCoordinates env_geo_down ''Mirpur, Dhaka'' = Throws \<and>
   bookParcel env_geo_down
       [(''email'', JStr ''c@x''), (''pickupAddress'', JStr ''Atlantis''),
        (''deliveryAddress'', JStr ''Mirpur'')] st_empty =
     (Response 500 (NotBooked ''Booking failed''),
      st_empty\<lparr>trace := [ConsoleError ''Error booking parcel:'']\<rparr>)"
  by (simp add: bookParcel_def tryBook_def getCoordinates_def js_plus_def console_error_def
        st_empty_eq example_defs)

text \<open>
  C5, as the code has it: a booking in which the pickup or the delivery address
  resolves to no place stores no parcel, changes no user and sends no mail. It is
  answered with 400 \<open>Invalid addresses\<close>, and nothing at all has happened, when both
  lookups return; it is answered with 500 \<open>Booking failed\<close>, and the error is logged, when
  a lookup throws.
\<close>

theorem unresolved_address_rejected:
  assumes "getCoordinates env (js_plus env (map_of body ''pickupAddress'') '', Dhaka'') = pickupCoords"
    and "getCoordinates env (js_plus env (map_of body ''deliveryAddress'') '', Dhaka'') = deliveryCoords"
    and "pickupCoords = Returns None \<or> deliveryCoords = Returns None"
  shows "parcels (snd (bookParcel env body st)) = parcels st \<and>
         users (snd (bookParcel env body st)) = users st \<and>
         (\<forall>m. SendMail m \<in> set (trace (snd (bookParcel env body st))) \<longrightarrow>
              SendMail m \<in> set (trace st)) \<and>
         (pickupCoords \<noteq> Throws \<and> deliveryCoords \<noteq> Throws \<longrightarrow>
            bookParcel env body st = (Response 400 (NotBooked ''Invalid addresses''), st)) \<and>
         (pickupCoords = Throws \<or> deliveryCoords = Throws \<longrightarrow>
            bookParcel env body st =
              (Response 500 (NotBooked ''Booking failed''),
               st\<lparr>trace := trace st @ [ConsoleError ''Error booking parcel:'']\<rparr>))"
proof -
  have r: "bookParcel env body st =
      (if pickupCoords = Throws \<or> deliveryCoords = Throws
       then (Response 500 (NotBooked ''Booking failed''),
             st\<lparr>trace := trace st @ [ConsoleError ''Error booking parcel:'']\<rparr>)
       else (Response 400 (NotBooked ''Invalid addresses''), st))"
    using assms
    by (auto simp: bookParcel_def tryBook_def console_error_def
             split: outcome.splits option.splits)
  show ?thesis
    by (simp add: r)
qed

theorem unresolved_address_rejected_witness:
  "bookParcel env_ok [(''email'', JStr ''c@x''), (''pickupAddress'', JStr ''Gulshan''),
                      (''deliveryAddress'', JStr ''Atlantis'')] st_empty =
     (Response 400 (NotBooked ''Invalid addresses''), st_empty) \<and>
   bookParcel env_geo_down [(''email'', JStr ''c@x''), (''pickupAddress'', JStr ''Atlantis''),
                      (''deliveryAddress'', JStr ''Mirpur'')] st_empty =
     (Response 500 (NotBooked ''Booking failed''),
      st_empty\<lparr>trace := trace st_empty @ [ConsoleError ''Error booking parcel:'']\<rparr>) \<and>
   parcels (snd (bookParcel env_geo_down [(''email'', JStr ''c@x''), (''pickupAddress'', JStr ''Atlantis''),
                      (''deliveryAddress'', JStr ''Mirpur'')] st_empty)) = parcels st_empty"
  using unresolved_address_rejected [of env_ok
      "[(''email'', JStr ''c@x''), (''pickupAddress'', JStr ''Gulshan''), (''deliveryAddress'', JStr ''Atlantis'')]"
      "Returns (Some (JObj [(''lat'', JNum 24), (''lng'', JNum 90)]))" "Returns None" st_empty]
    unresolved_address_rejected [of env_geo_down
      "[(''email'', JStr ''c@x''), (''pickupAddress'', JStr ''Atlantis''), (''deliveryAddress'', JStr ''Mirpur'')]"
      "Returns None" Throws st_empty]
  by (simp add: getCoordinates_def js_plus_def env_ok_def env_geo_down_def)

text \<open>
  C6. The booked record is the request body with five fields overwritten. The claim
  fails on the agent reference: a body that carries a \<open>deliveryAgent\<close> field is stored
  with it, in status \<open>Pending\<close>.
\<close>

theorem booking_with_agent_counterexample:
  "bookParcel (env_fresh 1) (booking @ [(''deliveryAgent'', JObj [(''email'', JStr ''a@x'')])]) st_empty =
     (Response 200 (Booked (JObjectId 1)),
      st_empty\<lparr>parcels :=
         [[(''name'', JStr ''C''), (''email'', JStr ''c@x''), (''pickupAddress'', JStr ''Gulshan''),
           (''deliveryAddress'', JStr ''Mirpur''),
           (''deliveryAgent'', JObj [(''email'', JStr ''a@x'')]),
           (''status'', JStr ''Pending''), (''createdAt'', JDate 100), (''_id'', JObjectId 1),
           (''pickup'', JObj [(''lat'', JNum 24), (''lng'', JNum 90)]),
           (''delivery'', JObj [(''lat'', JNum 23), (''lng'', JNum 91)])]],
        trace := [booked_mail]\<rparr>)"
  by (simp add: bookParcel_def tryBook_def getCoordinates_def js_plus_def new_parcel_def sendMail_def
        st_empty_eq example_defs)

text \<open>
  C6, as the code has it: when both addresses resolve and the store takes the insert,
  one record is added whose status is \<open>Pending\<close>, whose coordinates are the two resolved
  ones and not null, whose creation time is the server's clock and whose identifier is
  the server's fresh one; every other field, the agent reference among them, is the
  request body's; the confirmation mail is then handed to the transport.
\<close>

theorem booking_persists_pending:
  assumes "getCoordinates env (js_plus env (map_of body ''pickupAddress'') '', Dhaka'') = Returns (Some pc)"
    and "getCoordinates env (js_plus env (map_of body ''deliveryAddress'') '', Dhaka'') = Returns (Some dc)"
    and "insertParcel_ok env"
  shows "\<exists>p rest.
      parcels (snd (bookParcel env body st)) = parcels st @ [p] \<and>
      map_of p ''status'' = Some (JStr ''Pending'') \<and>
      map_of p ''pickup'' = Some pc \<and> pc \<noteq> JNull \<and>
      map_of p ''delivery'' = Some dc \<and> dc \<noteq> JNull \<and>
      map_of p ''createdAt'' = Some (JDate (now env)) \<and>
      map_of p ''_id'' = Some (JObjectId (newObjectId env)) \<and>
      map_of p ''deliveryAgent'' = map_of body ''deliveryAgent'' \<and>
      (\<forall>k. k \<notin> {''status'', ''pickup'', ''delivery'', ''createdAt'', ''_id''} \<longrightarrow>
           map_of p k = map_of body k) \<and>
      trace (snd (bookParcel env body st)) =
        trace st @ [SendMail (Mail (map_of body ''email'') ''Parcel Booking Confirmation'')] @ rest"
proof -
  have nn: "pc \<noteq> JNull" "dc \<noteq> JNull"
    using assms(1,2) by (auto dest: getCoordinates_not_null)
  show ?thesis
  proof (cases "sendMail_ok env (Mail (map_of body ''email'') ''Parcel Booking Confirmation'')")
    case True
    with assms nn show ?thesis
      by (simp add: bookParcel_def tryBook_def sendMail_def Let_def new_parcel_fields)
  next
    case False
    with assms nn show ?thesis
      by (simp add: bookParcel_def tryBook_def sendMail_def Let_def new_parcel_fields console_error_def)
  qed
qed

theorem booking_persists_pending_witness:
  "\<exists>p rest.
      parcels (snd (bookParcel env_ok booking st_empty)) = [p] \<and>
      map_of p ''status'' = Some (JStr ''Pending'') \<and>
      map_of p ''pickup'' = Some (JObj [(''lat'', JNum 24), (''lng'', JNum 90)]) \<and>
      map_of p ''delivery'' = Some (JObj [(''lat'', JNum 23), (''lng'', JNum 91)]) \<and>
      map_of p ''createdAt'' = Some (JDate 100) \<and>
      map_of p ''_id'' = Some (JObjectId 7) \<and>
      map_of p ''deliveryAgent'' = None \<and>
      map_of p ''name'' = Some (JStr ''C'') \<and>
      trace (snd (bookParcel env_ok booking st_empty)) =
        [SendMail (Mail (Some (JStr ''c@x'')) ''Parcel Booking Confirmation'')] @ rest"
proof -
  have a: "getCoordinates env_ok (js_plus env_ok (map_of booking ''pickupAddress'') '', Dhaka'') =
      Returns (Some (JObj [(''lat'', JNum 24), (''lng'', JNum 90)]))"
    by (simp add: getCoordinates_def js_plus_def env_ok_def booking_def)
  have b: "getCoordinates env_ok (js_plus env_ok (map_of booking ''deliveryAddress'') '', Dhaka'') =
      Returns (Some (JObj [(''lat'', JNum 23), (''lng'', JNum 91)]))"
    by (simp add: getCoordinates_def js_plus_def env_ok_def booking_def)
  have c: "insertParcel_ok env_ok" by (simp add: env_ok_def)
  from booking_persists_pending [OF a b c, of st_empty]
  obtain p rest where
    "parcels (snd (bookParcel env_ok booking st_empty)) = parcels st_empty @ [p]"
    "map_of p ''status'' = Some (JStr ''Pending'')"
    "map_of p ''pickup'' = Some (JObj [(''lat'', JNum 24), (''lng'', JNum 90)])"
    "map_of p ''delivery'' = Some (JObj [(''lat'', JNum 23), (''lng'', JNum 91)])"
    "map_of p ''createdAt'' = Some (JDate (now env_ok))"
    "map_of p ''_id'' = Some (JObjectId (newObjectId env_ok))"
    "map_of p ''deliveryAgent'' = map_of booking ''deliveryAgent''"
    "\<forall>k. k \<notin> {''status'', ''pickup'', ''delivery'', ''createdAt'', ''_id''} \<longrightarrow>
         map_of p k = map_of booking k"
    "trace (snd (bookParcel env_ok booking st_empty)) =
       trace st_empty @ [SendMail (Mail (map_of booking ''email'') ''Parcel Booking Confirmation'')] @ rest"
    by blast
  moreover have "parcels st_empty = []" "trace st_empty = []"
    by (simp_all add: st_empty_eq)
  moreover have "now env_ok = 100" "newObjectId env_ok = 7"
    by (simp_all add: env_ok_def)
  moreover have "map_of booking ''deliveryAgent'' = None"
    "map_of booking ''email'' = Some (JStr ''c@x'')"
    "map_of booking ''name'' = Some (JStr ''C'')"
    by (simp_all add: booking_def)
  ultimately show ?thesis
    by (intro exI [of _ p] exI [of _ rest]) simp
qed




text \<open>
  C8. The status update sets whatever fields the request body names. The claim fails:
  a body with a \<open>createdAt\<close> field overwrites the creation time.
\<close>

theorem createdAt_overwritten_counterexample:
  "map (\<lambda>d. map_of d ''createdAt'') (parcels st_assigned) = [Some (JDate 100), Some (JDate 100)] \<and>
   fst (patchParcel env_ok pid1 [(''createdAt'', JStr ''2000-01-01'')] st_assigned) =
     Response 200 (UpdateResult \<lparr>matchedCount = 1, modifiedCount = 1\<rparr>) \<and>
   map (\<lambda>d. map_of d ''createdAt'')
     (parcels (snd (patchParcel env_ok pid1 [(''createdAt'', JStr ''2000-01-01'')] st_assigned))) =
     [Some (JStr ''2000-01-01''), Some (JDate 100)]"
  by (simp add: handler_defs st_assigned_eq example_defs)

text \<open>
  C8, as the code has it: a status update whose body names neither \<open>createdAt\<close> nor a path
  that begins at \<open>createdAt\<close> leaves the creation time of every parcel as it is; a booking
  only adds records, and a user edit leaves the parcels alone.
\<close>

theorem createdAt_kept:
  "(\<not> list_ex (touches_field ''createdAt'') (map fst updateData) \<longrightarrow>
      map (\<lambda>d. map_of d ''createdAt'') (parcels (snd (patchParcel env pid updateData st))) =
      map (\<lambda>d. map_of d ''createdAt'') (parcels st)) \<and>
   (\<exists>new. parcels (snd (bookParcel env body st)) = parcels st @ new) \<and>
   parcels (snd (patchUserRole env email userData st)) = parcels st"
proof (intro conjI impI)
  assume "\<not> list_ex (touches_field ''createdAt'') (map fst updateData)"
  then have none: "map_of updateData ''createdAt'' = None"
    by (rule touches_field_none)
  have keep: "map (\<lambda>d. map_of d ''createdAt'') (replace_first f (set_fields updateData) ds) =
      map (\<lambda>d. map_of d ''createdAt'') ds" for f ds
    by (rule map_replace_first) (simp add: set_fields_field none)
  show "map (\<lambda>d. map_of d ''createdAt'') (parcels (snd (patchParcel env pid updateData st))) =
      map (\<lambda>d. map_of d ''createdAt'') (parcels st)"
    by (auto simp: patchParcel_parcels keep dest!: updateOne_Returns
             split: option.splits outcome.splits)
qed (simp_all add: bookParcel_parcels patchUserRole_parcels)

theorem createdAt_kept_witness:
  "map (\<lambda>d. map_of d ''createdAt'')
     (parcels (snd (patchParcel env_ok pid1 [(''status'', JStr ''Delivered'')] st_assigned))) =
   [Some (JDate 100), Some (JDate 100)]"
  using createdAt_kept [of "[(''status'', JStr ''Delivered'')]" env_ok pid1 st_assigned]
  by (simp add: st_assigned_eq example_defs touches_field_def)

text \<open>
  C9. Releasing an agent twice in a row leaves the user collection as one release
  leaves it; the second call modifies nothing.
\<close>

theorem setAvailable_twice:
  "\<exists>r1 r2 us1. setAvailable e us = Returns (r1, us1) \<and> setAvailable e us1 = Returns (r2, us1) \<and> modifiedCount r2 = 0"
proof -
  let ?g = "AList.update ''availability'' (JStr ''available'')"
  let ?us1 = "replace_first (has_email e) ?g us"
  have keep: "\<And>d. has_email e d \<Longrightarrow> has_email e (?g d) \<and> ?g (?g d) = ?g d"
    by (simp add: has_email_def update_conv')
  have idem: "replace_first (has_email e) ?g ?us1 = ?us1"
    using keep by (rule replace_first_idem)
  have m: "(case find (has_email e) ?us1 of None \<Rightarrow> 0
            | Some d \<Rightarrow> if ?g d = d then 0 else (1::nat)) = 0"
  proof (cases "find (has_email e) us")
    case None
    then show ?thesis by (simp add: replace_first_not_found)
  next
    case (Some d)
    then have "has_email e d" by (auto simp: find_Some_iff)
    with Some keep have "find (has_email e) ?us1 = Some (?g d)"
      by (simp add: find_replace_first)
    then show ?thesis by simp
  qed
  show ?thesis
    by (simp add: setAvailable_eq idem m)
qed

theorem setAvailable_twice_witness:
  "\<exists>r1 r2. setAvailable (JStr ''a@x'') [agent_a ''busy''] = Returns (r1, [agent_a ''available'']) \<and>
     setAvailable (JStr ''a@x'') [agent_a ''available''] = Returns (r2, [agent_a ''available''])"
  using setAvailable_twice [of "JStr ''a@x''" "[agent_a ''busy'']"]
  by (simp add: setAvailable_eq agent_a_def has_email_def)

text \<open>
  C10. \<open>GET /parcels\<close> without an \<open>email\<close> parameter returns every parcel of the store;
  with a non-empty \<open>email\<close> it returns the parcels of that owner.
\<close>

theorem getParcels_owner_filter:
  "getParcels None st = parcels st \<and>
   getParcels (Some []) st = parcels st \<and>
   (e \<noteq> [] \<longrightarrow>
      getParcels (Some e) st = filter (\<lambda>p. eq_match (map_of p ''email'') (JStr e)) (parcels st))"
  by (simp add: getParcels_def has_email_def [abs_def])

theorem getParcels_owner_filter_witness:
  "getParcels None st_assigned = [parcel_of 1 ''Assigned'', parcel_of 2 ''Assigned''] \<and>
   getParcels (Some ''a@x'') st_assigned = []"
  using getParcels_owner_filter [of st_assigned "''a@x''"]
  by (simp add: st_assigned_eq example_defs)

end
